theory Spec2Isabelle
  imports Main "HOL-Library.Sublist"
begin

section \<open>Strings\<close>

text \<open>
  Go strings and Python strings are modelled as \<open>string\<close> (lists of 8-bit characters).
  The models of the library functions below are exact on ASCII text, which is what the
  identifiers, type names and SQL keywords handled by the program consist of; bytes
  outside ASCII are left unchanged by \<open>ToLower\<close>.
\<close>

definition lower_char :: "char \<Rightarrow> char" where
  "lower_char c =
     (if 65 \<le> (of_char c :: nat) \<and> (of_char c :: nat) \<le> 90
      then char_of ((of_char c :: nat) + 32) else c)"

text \<open>\<open>strings.ToLower\<close> (Go) and \<open>str.lower\<close> (Python): \<open>A\<close>..\<open>Z\<close> become \<open>a\<close>..\<open>z\<close>.\<close>

definition ToLower :: "string \<Rightarrow> string" where
  "ToLower s = map lower_char s"

text \<open>
  \<open>strings.ReplaceAll(s, old, new)\<close> (Go) and \<open>s.replace(old, new)\<close> (Python):
  non-overlapping occurrences of \<open>old\<close> are replaced from the left; an empty \<open>old\<close>
  matches before every character and at the end.
\<close>

function ReplaceAll :: "string \<Rightarrow> string \<Rightarrow> string \<Rightarrow> string" where
  "ReplaceAll s old new =
     (if old = [] then new @ concat (map (\<lambda>c. c # new) s)
      else if s = [] then []
      else if prefix old s then new @ ReplaceAll (drop (length old) s) old new
      else hd s # ReplaceAll (tl s) old new)"
  by pat_completeness auto
termination
  by (relation "measure (\<lambda>(s, old, new). length s)") auto

declare ReplaceAll.simps [simp del]

text \<open>\<open>strings.Join(elems, sep)\<close>.\<close>

fun Join :: "string list \<Rightarrow> string \<Rightarrow> string" where
  "Join [] sep = []"
| "Join [x] sep = x"
| "Join (x # y # ys) sep = x @ sep @ Join (y # ys) sep"

section \<open>Data model (main.go, lines 16-36)\<close>

record Field =
  Name :: string
  Type :: string
  Nullable :: bool
  Unique :: bool
  Relation :: string
  RelatedTo :: string

text \<open>The struct \<open>Model\<close>; its field \<open>Name\<close> is called \<open>ModelName\<close> here.\<close>

record Model =
  ModelName :: string
  Fields :: "Field list"

record Output =
  Models :: "Model list"
  Queries :: "string list"

text \<open>
  Uncaught Python exceptions of the embedded script, and the errors and panics of the
  Go side.
\<close>

datatype py_exception = OSError | SyntaxError | AttributeError | IndexError | TypeError

datatype go_error = ExitError py_exception | UnmarshalTypeError | TruncatePanic

section \<open>Schema generation (main.go, lines 122-195)\<close>

text \<open>\<open>toSnake\<close>, line 193.\<close>

definition toSnake :: "string \<Rightarrow> string" where
  "toSnake s = ToLower (ReplaceAll s '' '' ''_'')"

text \<open>\<open>sqlType\<close>, line 175: the dialect is not inspected.\<close>

definition sqlType :: "string \<Rightarrow> string \<Rightarrow> string" where
  "sqlType ftype dialect =
     (if ftype = ''CharField'' \<or> ftype = ''TextField'' then ''TEXT''
      else if ftype = ''IntegerField'' then ''INTEGER''
      else if ftype = ''FloatField'' then ''REAL''
      else if ftype = ''BooleanField'' then ''BOOLEAN''
      else if ftype = ''DateField'' \<or> ftype = ''DateTimeField'' then ''TIMESTAMP''
      else ''TEXT'')"

text \<open>
  The buffer \<open>sb\<close> is the text written so far. \<open>sb.Truncate(n)\<close> (line 144) is given
  the meaning of \<open>bytes.Buffer.Truncate\<close>, the method of this name in Go's standard
  library: it keeps the first \<open>n\<close> bytes and panics when \<open>n\<close> is negative or larger
  than the length.
\<close>

definition Truncate :: "string \<Rightarrow> int \<Rightarrow> go_error + string" where
  "Truncate sb n =
     (if n < 0 \<or> int (length sb) < n then Inl TruncatePanic else Inr (take (nat n) sb))"

text \<open>The column line of one field (the variable \<open>col\<close>, lines 129-135).\<close>

definition column :: "Field \<Rightarrow> string \<Rightarrow> string" where
  "column f dialect =
     (let col = ''    '' @ toSnake (Name f) @ '' '' @ sqlType (Type f) dialect;
          col = (if \<not> Nullable f then col @ '' NOT NULL'' else col);
          col = (if Unique f then col @ '' UNIQUE'' else col)
      in col)"

text \<open>The body of the loop over the models in \<open>generateSQL\<close> (lines 126-155).\<close>

definition generateSQL_body :: "string \<Rightarrow> Model \<Rightarrow> string \<Rightarrow> go_error + string" where
  "generateSQL_body sb0 m dialect =
     (let sb = sb0 @ ''CREATE TABLE '' @ toSnake (ModelName m) @ '' (\<newline>'';
          sb = sb @ ''    id SERIAL PRIMARY KEY,\<newline>'';
          sb = foldl (\<lambda>sb f. sb @ column f dialect @ '',\<newline>'') sb (Fields m);
          sb = foldl (\<lambda>sb f.
                 if Relation f = ''foreignkey'' \<or> Relation f = ''one2one''
                 then sb @ ''    FOREIGN KEY ('' @ toSnake (Name f) @ ''_id) REFERENCES ''
                         @ toSnake (RelatedTo f) @ ''(id),\<newline>''
                 else sb) sb (Fields m)
      in case Truncate sb (int (length sb) - 2) of
           Inl e \<Rightarrow> Inl e
         | Inr sb \<Rightarrow>
             (let sb = sb @ ''\<newline>);\<newline>\<newline>''
              in Inr (foldl (\<lambda>sb f.
                   if Relation f = ''many2many''
                   then (let join = toSnake (ModelName m) @ ''_'' @ toSnake (Name f)
                         in sb @ ''CREATE TABLE '' @ join @ '' (\<newline>    ''
                              @ toSnake (ModelName m) @ ''_id INTEGER REFERENCES ''
                              @ toSnake (ModelName m) @ ''(id),\<newline>    ''
                              @ toSnake (RelatedTo f) @ ''_id INTEGER REFERENCES ''
                              @ toSnake (RelatedTo f) @ ''(id)\<newline>);\<newline>\<newline>'')
                   else sb) sb (Fields m))))"

fun generateSQL_loop :: "string \<Rightarrow> Model list \<Rightarrow> string \<Rightarrow> go_error + string" where
  "generateSQL_loop sb [] dialect = Inr sb"
| "generateSQL_loop sb (m # ms) dialect =
     (case generateSQL_body sb m dialect of
        Inl e \<Rightarrow> Inl e
      | Inr sb' \<Rightarrow> generateSQL_loop sb' ms dialect)"

definition generateSQL :: "Model list \<Rightarrow> string \<Rightarrow> go_error + string" where
  "generateSQL models dialect = generateSQL_loop [] models dialect"

text \<open>\<open>generateDownSQL\<close>, lines 161-172.\<close>

definition generateDownSQL_body :: "string \<Rightarrow> Model \<Rightarrow> string" where
  "generateDownSQL_body sb0 m =
     (let sb = foldl (\<lambda>sb f.
                 if Relation f = ''many2many''
                 then sb @ ''DROP TABLE IF EXISTS '' @ toSnake (ModelName m) @ ''_''
                         @ toSnake (Name f) @ '';\<newline>''
                 else sb) sb0 (Fields m)
      in sb @ ''DROP TABLE IF EXISTS '' @ toSnake (ModelName m) @ '';\<newline>'')"

definition generateDownSQL :: "Model list \<Rightarrow> string \<Rightarrow> string" where
  "generateDownSQL models dialect = foldl generateDownSQL_body [] models"

text \<open>\<open>generateSQLCConfig\<close>, lines 198-209.\<close>

definition generateSQLCConfig :: "string \<Rightarrow> string" where
  \<open>generateSQLCConfig dialect =
     ''version: "2"\<newline>sql:\<newline>  - engine: '' @ dialect
     @ ''\<newline>    queries: "./query.sql"\<newline>    schema: "./schema.sql"\<newline>''
     @ ''    gen:\<newline>      go:\<newline>        package: "db"\<newline>        out: "./db"\<newline>''\<close>

section \<open>The embedded Python script (main.go, lines 212-261)\<close>

text \<open>
  Values that end up in the JSON document. \<open>PyObject\<close> stands for any value that
  \<open>json.dumps\<close> cannot serialise (a syntax-tree node, bytes, a complex number);
  \<open>PyInt\<close> stands for the numbers.
\<close>

datatype pyvalue = PyNone | PyBool bool | PyInt int | PyStr string | PyObject

text \<open>
  The part of Python's syntax tree that the script inspects. \<open>ast_Subscript\<close> and
  \<open>ast_Starred\<close> are the other expression nodes with a \<open>value\<close> attribute,
  \<open>ast_OtherExpr\<close> any expression node with none of the attributes \<open>id\<close>, \<open>attr\<close>,
  \<open>value\<close>, \<open>s\<close>; \<open>ast_OtherStmt\<close> is any statement that is neither an assignment
  \<open>targets = value\<close> nor a class definition. A keyword argument \<open>**kw\<close> has no name.
\<close>

datatype expr =
    ast_Name string
  | ast_Attribute expr string
  | ast_Constant pyvalue
  | ast_Call expr "expr list" "(string option \<times> expr) list"
  | ast_Tuple "expr list"
  | ast_Subscript expr expr
  | ast_Starred expr
  | ast_OtherExpr

datatype stmt =
    ast_Assign "expr list" expr
  | ast_ClassDef string "expr list" "stmt list"
  | ast_OtherStmt

text \<open>The dictionaries appended to \<open>fields\<close> and \<open>result\<close>, and the printed document.\<close>

record py_field =
  py_name :: string
  py_type :: string
  py_nullable :: pyvalue
  py_unique :: pyvalue
  py_relation :: "string option"
  py_related_to :: "string option"

record py_model =
  py_model_name :: string
  py_fields :: "py_field list"

record py_output =
  py_models :: "py_model list"
  py_queries :: "string list"

text \<open>\<open>getattr(k.value, 's', getattr(k.value, 'value', None))\<close>, line 234.\<close>

fun keyword_value :: "expr \<Rightarrow> pyvalue" where
  "keyword_value (ast_Constant v) = v"
| "keyword_value (ast_Attribute e a) = PyObject"
| "keyword_value (ast_Subscript e i) = PyObject"
| "keyword_value (ast_Starred e) = PyObject"
| "keyword_value e = PyNone"

text \<open>\<open>kwargs.get(key, False)\<close> on the dictionary built from the keywords (a later
  keyword of the same name wins).\<close>

definition kwargs_get :: "(string option \<times> expr) list \<Rightarrow> string \<Rightarrow> pyvalue" where
  "kwargs_get keywords key =
     (case map_of (rev (map (\<lambda>(arg, v). (arg, keyword_value v)) keywords)) (Some key) of
        None \<Rightarrow> PyBool False
      | Some v \<Rightarrow> v)"

text \<open>
  One statement of a class body (lines 231-249): \<open>Inr None\<close> when the statement is
  skipped, \<open>Inr (Some d)\<close> when it contributes the field \<open>d\<close>, \<open>Inl e\<close> when the
  exception \<open>e\<close> is raised.
\<close>

fun field_of_stmt :: "stmt \<Rightarrow> py_exception + py_field option" where
  "field_of_stmt (ast_Assign targets (ast_Call func args keywords)) =
     (case targets of
        [] \<Rightarrow> Inl IndexError
      | ast_Name fname # _ \<Rightarrow>
          (let ftype = (case func of ast_Attribute _ attr \<Rightarrow> attr | _ \<Rightarrow> '''');
               nullable = kwargs_get keywords ''null'';
               unique = kwargs_get keywords ''unique''
           in if ftype \<in> set [''ForeignKey'', ''OneToOneField'', ''ManyToManyField'']
              then (let related = ReplaceAll (ToLower ftype) ''field'' ''''
                    in case args of
                         [] \<Rightarrow> Inl IndexError
                       | a # _ \<Rightarrow>
                           Inr (Some \<lparr>py_name = fname, py_type = ftype,
                             py_nullable = nullable, py_unique = unique,
                             py_relation = Some related,
                             py_related_to =
                               Some (case a of ast_Name i \<Rightarrow> i | _ \<Rightarrow> '''')\<rparr>))
              else Inr (Some \<lparr>py_name = fname, py_type = ftype,
                     py_nullable = nullable, py_unique = unique,
                     py_relation = None, py_related_to = None\<rparr>))
      | _ # _ \<Rightarrow> Inl AttributeError)"
| "field_of_stmt s = Inr None"

text \<open>The loop over \<open>node.body\<close> (line 230), appending to \<open>fields\<close> (here \<open>flds\<close>).\<close>

fun class_fields :: "py_field list \<Rightarrow> stmt list \<Rightarrow> py_exception + py_field list" where
  "class_fields flds [] = Inr flds"
| "class_fields flds (s # body) =
     (case field_of_stmt s of
        Inl e \<Rightarrow> Inl e
      | Inr None \<Rightarrow> class_fields flds body
      | Inr (Some d) \<Rightarrow> class_fields (flds @ [d]) body)"

text \<open>The loop over \<open>tree.body\<close> (lines 225-250), appending to \<open>result\<close>.\<close>

fun module_models :: "py_model list \<Rightarrow> stmt list \<Rightarrow> py_exception + py_model list" where
  "module_models result [] = Inr result"
| "module_models result (ast_ClassDef name bases body # nodes) =
     (let bases' = map (\<lambda>b. case b of ast_Name i \<Rightarrow> i | _ \<Rightarrow> '''') bases
      in if ''Model'' \<in> set bases'
         then (case class_fields [] body of
                 Inl e \<Rightarrow> Inl e
               | Inr flds \<Rightarrow>
                   module_models
                     (result @ [\<lparr>py_model_name = name, py_fields = flds\<rparr>]) nodes)
         else module_models result nodes)"
| "module_models result (node # nodes) = module_models result nodes"

text \<open>
  \<open>str.splitlines\<close> and \<open>str.strip\<close> on ASCII text: the line boundaries are the
  characters 10 to 13 and 28 to 30, with \<open>\r\n\<close> counted once; white space is 9 to 13,
  28 to 32.
\<close>

definition is_linebreak :: "char \<Rightarrow> bool" where
  "is_linebreak c = ((of_char c :: nat) \<in> {10, 11, 12, 13, 28, 29, 30})"

definition is_space :: "char \<Rightarrow> bool" where
  "is_space c = ((of_char c :: nat) \<in> {9, 10, 11, 12, 13, 28, 29, 30, 31, 32})"

fun splitlines_from :: "string \<Rightarrow> string \<Rightarrow> string list" where
  "splitlines_from cur [] = (if cur = [] then [] else [cur])"
| "splitlines_from cur [c] =
     (if is_linebreak c then [cur] else [cur @ [c]])"
| "splitlines_from cur (c # d # cs) =
     (if (of_char c :: nat) = 13 \<and> (of_char d :: nat) = 10 then cur # splitlines_from [] cs
      else if is_linebreak c then cur # splitlines_from [] (d # cs)
      else splitlines_from (cur @ [c]) (d # cs))"

definition splitlines :: "string \<Rightarrow> string list" where
  "splitlines s = splitlines_from [] s"

definition strip :: "string \<Rightarrow> string" where
  "strip s = rev (dropWhile is_space (rev (dropWhile is_space s)))"

text \<open>The query fragments of one file (lines 251-256).\<close>

definition file_queries :: "string \<Rightarrow> string \<Rightarrow> string list" where
  "file_queries file code =
     (if sublist ''.objects.'' code
      then map (\<lambda>line. ''-- from: '' @ file @ ''\<newline>-- '' @ strip line)
             (filter (\<lambda>line. sublist ''.objects.'' line \<and>
                  (sublist ''filter('' line \<or> sublist ''get('' line \<or> sublist ''create('' line))
                (splitlines code))
      else [])"

text \<open>
  The loop over the files found by \<open>os.walk\<close> (lines 219-256). A file is its base name
  and its text, \<open>None\<close> when it cannot be opened. \<open>parse\<close> stands for
  \<open>ast.parse\<close>: \<open>None\<close> when the text is not in the grammar (a \<open>SyntaxError\<close>),
  otherwise the body of the module.
\<close>

fun extract_loop ::
  "(string \<Rightarrow> stmt list option) \<Rightarrow> py_model list \<Rightarrow> string list \<Rightarrow>
   (string \<times> string option) list \<Rightarrow> py_exception + (py_model list \<times> string list)" where
  "extract_loop parse result queries [] = Inr (result, queries)"
| "extract_loop parse result queries ((file, content) # files) =
     (if suffix ''.py'' file
      then (case content of
              None \<Rightarrow> Inl OSError
            | Some code \<Rightarrow>
                (case parse code of
                   None \<Rightarrow> Inl SyntaxError
                 | Some tree \<Rightarrow>
                     (case module_models result tree of
                        Inl e \<Rightarrow> Inl e
                      | Inr result' \<Rightarrow>
                          extract_loop parse result' (queries @ file_queries file code) files)))
      else extract_loop parse result queries files)"

text \<open>\<open>json.dumps\<close> raises \<open>TypeError\<close> on a value it cannot serialise.\<close>

definition serialisable :: "py_output \<Rightarrow> bool" where
  "serialisable out =
     list_all (\<lambda>m. list_all (\<lambda>d. py_nullable d \<noteq> PyObject \<and> py_unique d \<noteq> PyObject)
        (py_fields m)) (py_models out)"

text \<open>
  \<open>extract_models\<close> (line 216): the document printed on standard output, or the
  exception that ends the script without any output.
\<close>

definition extract_models ::
  "(string \<Rightarrow> stmt list option) \<Rightarrow> (string \<times> string option) list \<Rightarrow>
   py_exception + py_output" where
  "extract_models parse files =
     (case extract_loop parse [] [] files of
        Inl e \<Rightarrow> Inl e
      | Inr (result, queries) \<Rightarrow>
          (let out = \<lparr>py_models = result, py_queries = queries\<rparr>
           in if serialisable out then Inr out else Inl TypeError))"

section \<open>Running the parser (main.go, lines 99-110)\<close>

text \<open>
  \<open>json.Unmarshal\<close> into the Go structs: a JSON \<open>null\<close> leaves the zero value, a
  number or a string for a \<open>bool\<close> field is an error.
\<close>

fun unmarshal_bool :: "pyvalue \<Rightarrow> go_error + bool" where
  "unmarshal_bool (PyBool b) = Inr b"
| "unmarshal_bool PyNone = Inr False"
| "unmarshal_bool v = Inl UnmarshalTypeError"

definition unmarshal_string :: "string option \<Rightarrow> string" where
  "unmarshal_string v = (case v of None \<Rightarrow> [] | Some s \<Rightarrow> s)"

definition unmarshal_field :: "py_field \<Rightarrow> go_error + Field" where
  "unmarshal_field d =
     (case unmarshal_bool (py_nullable d) of
        Inl e \<Rightarrow> Inl e
      | Inr n \<Rightarrow>
          (case unmarshal_bool (py_unique d) of
             Inl e \<Rightarrow> Inl e
           | Inr u \<Rightarrow>
               Inr \<lparr>Name = py_name d, Type = py_type d, Nullable = n, Unique = u,
                 Relation = unmarshal_string (py_relation d),
                 RelatedTo = unmarshal_string (py_related_to d)\<rparr>))"

fun unmarshal_list :: "('a \<Rightarrow> go_error + 'b) \<Rightarrow> 'a list \<Rightarrow> go_error + 'b list" where
  "unmarshal_list f [] = Inr []"
| "unmarshal_list f (x # xs) =
     (case f x of
        Inl e \<Rightarrow> Inl e
      | Inr y \<Rightarrow> (case unmarshal_list f xs of Inl e \<Rightarrow> Inl e | Inr ys \<Rightarrow> Inr (y # ys)))"

definition unmarshal_model :: "py_model \<Rightarrow> go_error + Model" where
  "unmarshal_model d =
     (case unmarshal_list unmarshal_field (py_fields d) of
        Inl e \<Rightarrow> Inl e
      | Inr fs \<Rightarrow> Inr \<lparr>ModelName = py_model_name d, Fields = fs\<rparr>)"

definition Unmarshal :: "py_output \<Rightarrow> go_error + Output" where
  "Unmarshal d =
     (case unmarshal_list unmarshal_model (py_models d) of
        Inl e \<Rightarrow> Inl e
      | Inr ms \<Rightarrow> Inr \<lparr>Models = ms, Queries = py_queries d\<rparr>)"

text \<open>
  \<open>runPythonParser\<close>: an uncaught exception ends the script with a non-zero status,
  which \<open>cmd.Run\<close> returns as an error. \<open>tree path\<close> lists the files below \<open>path\<close>
  in the order of \<open>os.walk\<close>.
\<close>

definition runPythonParser ::
  "(string \<Rightarrow> stmt list option) \<Rightarrow> (string \<Rightarrow> (string \<times> string option) list) \<Rightarrow>
   string \<Rightarrow> go_error + Output" where
  "runPythonParser parse tree path =
     (case extract_models parse (tree path) of
        Inl e \<Rightarrow> Inl (ExitError e)
      | Inr doc \<Rightarrow> Unmarshal doc)"

section \<open>The command (main.go, lines 39-120)\<close>

text \<open>
  A reading of the clock, and \<open>Format("20060102150405")\<close>: year, month, day, hour,
  minute and second as decimal digits, padded with zeros to 4, 2, 2, 2, 2 and 2 places.
\<close>

record Time =
  Year :: nat
  Month :: nat
  Day :: nat
  Hour :: nat
  Minute :: nat
  Second :: nat

fun digits :: "nat \<Rightarrow> string" where
  "digits n =
     (if n < 10 then [char_of (48 + n)] else digits (n div 10) @ [char_of (48 + n mod 10)])"

definition pad :: "nat \<Rightarrow> nat \<Rightarrow> string" where
  "pad w n = replicate (w - length (digits n)) (CHR ''0'') @ digits n"

definition Format :: "Time \<Rightarrow> string" where
  "Format t = pad 4 (Year t) @ pad 2 (Month t) @ pad 2 (Day t)
            @ pad 2 (Hour t) @ pad 2 (Minute t) @ pad 2 (Second t)"

text \<open>
  \<open>timestamp\<close>, line 118. \<open>clock\<close> gives the successive readings of \<open>time.Now()\<close>;
  the state is the number of readings taken so far.
\<close>

definition timestamp :: "(nat \<Rightarrow> Time) \<Rightarrow> nat \<Rightarrow> string \<times> nat" where
  "timestamp clock n = (Format (clock n), Suc n)"

text \<open>
  \<open>write\<close>, line 113 (here \<open>writeFile\<close>). The files written are kept as the list
  of the calls, each with the path (the arguments of \<open>filepath.Join\<close>, in order) and the content.
\<close>

type_synonym path = "string list"

definition writeFile ::
  "(path \<times> string) list \<Rightarrow> path \<Rightarrow> string \<Rightarrow> (path \<times> string) list" where
  "writeFile fs p content = fs @ [(p, content)]"

text \<open>The command-line flags \<open>--input\<close>, \<open>--output\<close>, \<open>--dialect\<close> and \<open>--dry-run\<close>.\<close>

record flags =
  flag_input :: string
  flag_output :: string
  flag_dialect :: string
  flag_dryRun :: bool

record run =
  exit_status :: nat
  written :: "(path \<times> string) list"

text \<open>
  \<open>main\<close>, lines 39-96; the texts printed on standard output are left out. The
  arguments of each \<open>write\<close> are evaluated from left to right, so each \<open>timestamp()\<close>
  is read before the content of its file is generated. A panic ends the process with
  status 2.
\<close>

definition main ::
  "(string \<Rightarrow> stmt list option) \<Rightarrow> (string \<Rightarrow> (string \<times> string option) list) \<Rightarrow>
   (nat \<Rightarrow> Time) \<Rightarrow> flags \<Rightarrow> run" where
  "main parse tree clock fl =
     (if flag_input fl = [] then \<lparr>exit_status = 1, written = []\<rparr>
      else case runPythonParser parse tree (flag_input fl) of
        Inl err \<Rightarrow> \<lparr>exit_status = 1, written = []\<rparr>
      | Inr out \<Rightarrow>
          if flag_dryRun fl then \<lparr>exit_status = 0, written = []\<rparr>
          else
            (let migrations = [flag_output fl, ''migrations''] in
             case generateSQL (Models out) (flag_dialect fl) of
               Inl e \<Rightarrow> \<lparr>exit_status = 2, written = []\<rparr>
             | Inr schema \<Rightarrow>
                 (let fs = writeFile [] [flag_output fl, ''schema.sql''] schema;
                      (ts, n) = timestamp clock 0
                  in case generateSQL (Models out) (flag_dialect fl) of
                       Inl e \<Rightarrow> \<lparr>exit_status = 2, written = fs\<rparr>
                     | Inr up \<Rightarrow>
                         (let fs = writeFile fs (migrations @ [ts @ ''_create_tables.up.sql'']) up;
                              (ts, n) = timestamp clock n;
                              fs = writeFile fs (migrations @ [ts @ ''_create_tables.down.sql''])
                                     (generateDownSQL (Models out) (flag_dialect fl));
                              fs = writeFile fs [flag_output fl, ''query.sql'']
                                     (Join (Queries out) ''\<newline>\<newline>'');
                              fs = writeFile fs [flag_output fl, ''sqlc.yaml'']
                                     (generateSQLCConfig (flag_dialect fl))
                          in \<lparr>exit_status = 0, written = fs\<rparr>))))"

text \<open>
  The file found at a path after the run: the content of the last \<open>write\<close> to it.
\<close>

definition artifact :: "run \<Rightarrow> path \<Rightarrow> string option" where
  "artifact r p = map_of (rev (written r)) p"

text \<open>
  The guard of line 231, \<open>isinstance(stmt, ast.Assign) and isinstance(stmt.value, ast.Call)\<close>.
\<close>

fun is_assign_call :: "stmt \<Rightarrow> bool" where
  "is_assign_call (ast_Assign targets (ast_Call func args keywords)) = True"
| "is_assign_call s = False"

section \<open>The generated text in closed form\<close>

text \<open>
  The text that \<open>generateSQL\<close> writes for one model, described directly: the lines of the
  table joined by \<open>",\n"\<close>, then one join table for each many-to-many field. The lemma
  \<open>generateSQL_eq\<close> below shows that the loops of the source produce exactly this text.
\<close>

definition is_foreign_key :: "Field \<Rightarrow> bool" where
  "is_foreign_key f = (Relation f = ''foreignkey'' \<or> Relation f = ''one2one'')"

definition foreign_key_line :: "Field \<Rightarrow> string" where
  "foreign_key_line f =
     ''    FOREIGN KEY ('' @ toSnake (Name f) @ ''_id) REFERENCES ''
       @ toSnake (RelatedTo f) @ ''(id)''"

definition table_lines :: "Model \<Rightarrow> string \<Rightarrow> string list" where
  "table_lines m dialect =
     ''    id SERIAL PRIMARY KEY'' # map (\<lambda>f. column f dialect) (Fields m)
       @ map foreign_key_line (filter is_foreign_key (Fields m))"

definition create_table :: "Model \<Rightarrow> string \<Rightarrow> string" where
  "create_table m dialect =
     ''CREATE TABLE '' @ toSnake (ModelName m) @ '' (\<newline>''
       @ Join (table_lines m dialect) '',\<newline>'' @ ''\<newline>);\<newline>\<newline>''"

definition join_table :: "string \<Rightarrow> Field \<Rightarrow> string" where
  "join_table n f =
     ''CREATE TABLE '' @ toSnake n @ ''_'' @ toSnake (Name f) @ '' (\<newline>    ''
       @ toSnake n @ ''_id INTEGER REFERENCES '' @ toSnake n @ ''(id),\<newline>    ''
       @ toSnake (RelatedTo f) @ ''_id INTEGER REFERENCES ''
       @ toSnake (RelatedTo f) @ ''(id)\<newline>);\<newline>\<newline>''"

definition join_tables :: "string \<Rightarrow> Field list \<Rightarrow> string" where
  "join_tables n fs =
     concat (map (join_table n) (filter (\<lambda>f. Relation f = ''many2many'') fs))"

definition model_sql :: "Model \<Rightarrow> string \<Rightarrow> string" where
  "model_sql m dialect = create_table m dialect @ join_tables (ModelName m) (Fields m)"

section \<open>Example inputs\<close>

text \<open>
  The model of the README: \<open>Book\<close> with a title, a foreign key to \<open>Author\<close> and a
  many-to-many relation to \<open>Tag\<close>; and a model \<open>Person\<close> related to itself.
\<close>

definition Book_title :: Field where
  "Book_title = \<lparr>Name = ''title'', Type = ''CharField'', Nullable = False, Unique = False,
     Relation = [], RelatedTo = []\<rparr>"

definition Book_author :: Field where
  "Book_author = \<lparr>Name = ''author'', Type = ''ForeignKey'', Nullable = False, Unique = False,
     Relation = ''foreignkey'', RelatedTo = ''Author''\<rparr>"

definition Book_tags :: Field where
  "Book_tags = \<lparr>Name = ''tags'', Type = ''ManyToManyField'', Nullable = False, Unique = False,
     Relation = ''many2many'', RelatedTo = ''Tag''\<rparr>"

definition Book :: Model where
  "Book = \<lparr>ModelName = ''Book'', Fields = [Book_title, Book_author, Book_tags]\<rparr>"


text \<open>
  Two source files: \<open>models_py\<close> declares a model, \<open>broken_py\<close> stops in the middle of
  a class header. \<open>example_parse\<close> agrees with \<open>ast.parse\<close> on both.
\<close>

definition models_py :: string where
  "models_py = ''from django.db import models\<newline>from django.db.models import Model\<newline>\<newline>''
     @ ''class Author(Model):\<newline>    name = models.CharField(max_length=255)\<newline>''"

definition broken_py :: string where
  "broken_py = ''class Book(Model:\<newline>''"

definition example_parse :: "string \<Rightarrow> stmt list option" where
  "example_parse code =
     (if code = models_py
      then Some [ast_OtherStmt, ast_OtherStmt,
             ast_ClassDef ''Author'' [ast_Name ''Model'']
               [ast_Assign [ast_Name ''name'']
                  (ast_Call (ast_Attribute (ast_Name ''models'') ''CharField'') []
                     [(Some ''max_length'', ast_Constant (PyInt 255))])]]
      else None)"

definition good_app :: "string \<Rightarrow> (string \<times> string option) list" where
  "good_app path = [(''models.py'', Some models_py), (''README.md'', Some ''# app'')]"

definition broken_app :: "string \<Rightarrow> (string \<times> string option) list" where
  "broken_app path = [(''models.py'', Some models_py), (''views.py'', Some broken_py)]"

definition example_flags :: flags where
  "example_flags = \<lparr>flag_input = ''myapp'', flag_output = ''out'',
     flag_dialect = ''postgres'', flag_dryRun = False\<rparr>"

text \<open>
  A clock read first at 13:14:59 and then at 13:15:00 on 10 April 2025.
\<close>

definition boundary_clock :: "nat \<Rightarrow> Time" where
  "boundary_clock n =
     (if n = 0
      then \<lparr>Year = 2025, Month = 4, Day = 10, Hour = 13, Minute = 14, Second = 59\<rparr>
      else \<lparr>Year = 2025, Month = 4, Day = 10, Hour = 13, Minute = 15, Second = 0\<rparr>)"



section \<open>Lemmas on strings and buffers\<close>





lemma foldl_append_step:
  assumes "\<And>sb f. step sb f = sb @ h f"
  shows "foldl step sb fs = sb @ concat (map h fs)"
  using assms by (induction fs arbitrary: sb) simp_all

lemma concat_map_if:
  "concat (map (\<lambda>f. if P f then g f else []) fs) = concat (map g (filter P fs))"
  by (induction fs) simp_all


lemma Truncate_two: "Truncate (xs @ [a, b]) (int (length (xs @ [a, b])) - 2) = Inr xs"
  by (simp add: Truncate_def)

lemma concat_sep_Join:
  "ls \<noteq> [] \<Longrightarrow> concat (map (\<lambda>l. l @ sep) ls) = Join ls sep @ sep"
  by (induction ls sep rule: Join.induct) simp_all

section \<open>The loops of generateSQL and generateDownSQL\<close>

lemma table_lines_text:
  "''    id SERIAL PRIMARY KEY,\<newline>''
     @ concat (map (\<lambda>f. column f d @ '',\<newline>'') (Fields m))
     @ concat (map (\<lambda>f. foreign_key_line f @ '',\<newline>'') (filter is_foreign_key (Fields m)))
   = Join (table_lines m d) '',\<newline>'' @ '',\<newline>''"
proof -
  have "table_lines m d \<noteq> []" by (simp add: table_lines_def)
  from concat_sep_Join [OF this, of "'',\<newline>''"] show ?thesis
    by (simp add: table_lines_def comp_def)
qed

lemma generateSQL_body_eq: "generateSQL_body sb m d = Inr (sb @ model_sql m d)"
proof -
  have cols: "foldl (\<lambda>sb f. sb @ column f d @ '',\<newline>'') B (Fields m)
              = B @ concat (map (\<lambda>f. column f d @ '',\<newline>'') (Fields m))" for B
    by (rule foldl_append_step) simp
  have fks: "foldl (\<lambda>sb f.
                 if Relation f = ''foreignkey'' \<or> Relation f = ''one2one''
                 then sb @ ''    FOREIGN KEY ('' @ toSnake (Name f) @ ''_id) REFERENCES ''
                         @ toSnake (RelatedTo f) @ ''(id),\<newline>''
                 else sb) B (Fields m)
             = B @ concat (map (\<lambda>f. foreign_key_line f @ '',\<newline>'')
                    (filter is_foreign_key (Fields m)))" for B
  proof -
    have "foldl (\<lambda>sb f.
                 if Relation f = ''foreignkey'' \<or> Relation f = ''one2one''
                 then sb @ ''    FOREIGN KEY ('' @ toSnake (Name f) @ ''_id) REFERENCES ''
                         @ toSnake (RelatedTo f) @ ''(id),\<newline>''
                 else sb) B (Fields m)
          = B @ concat (map (\<lambda>f. if is_foreign_key f then foreign_key_line f @ '',\<newline>'' else [])
                  (Fields m))"
      by (rule foldl_append_step) (simp add: is_foreign_key_def foreign_key_line_def)
    then show ?thesis by (simp only: concat_map_if)
  qed
  have joins: "foldl (\<lambda>sb f.
                   if Relation f = ''many2many''
                   then sb @ ''CREATE TABLE '' @ (toSnake (ModelName m) @ ''_'' @ toSnake (Name f))
                          @ '' (\<newline>    ''
                          @ toSnake (ModelName m) @ ''_id INTEGER REFERENCES ''
                          @ toSnake (ModelName m) @ ''(id),\<newline>    ''
                          @ toSnake (RelatedTo f) @ ''_id INTEGER REFERENCES ''
                          @ toSnake (RelatedTo f) @ ''(id)\<newline>);\<newline>\<newline>''
                   else sb) B (Fields m) = B @ join_tables (ModelName m) (Fields m)" for B
  proof -
    have "foldl (\<lambda>sb f.
                   if Relation f = ''many2many''
                   then sb @ ''CREATE TABLE '' @ (toSnake (ModelName m) @ ''_'' @ toSnake (Name f))
                          @ '' (\<newline>    ''
                          @ toSnake (ModelName m) @ ''_id INTEGER REFERENCES ''
                          @ toSnake (ModelName m) @ ''(id),\<newline>    ''
                          @ toSnake (RelatedTo f) @ ''_id INTEGER REFERENCES ''
                          @ toSnake (RelatedTo f) @ ''(id)\<newline>);\<newline>\<newline>''
                   else sb) B (Fields m)
          = B @ concat (map (\<lambda>f. if Relation f = ''many2many'' then join_table (ModelName m) f else [])
                  (Fields m))"
      by (rule foldl_append_step) (simp add: join_table_def)
    then show ?thesis by (simp only: concat_map_if join_tables_def)
  qed
  let ?hd = "sb @ ''CREATE TABLE '' @ toSnake (ModelName m) @ '' (\<newline>''"
  let ?buf = "((?hd @ ''    id SERIAL PRIMARY KEY,\<newline>'')
                @ concat (map (\<lambda>f. column f d @ '',\<newline>'') (Fields m)))
                @ concat (map (\<lambda>f. foreign_key_line f @ '',\<newline>'')
                    (filter is_foreign_key (Fields m)))"
  have buf: "?buf = (?hd @ Join (table_lines m d) '',\<newline>'') @ [CHR '','', CHR ''\<newline>'']"
    by (simp only: append_assoc table_lines_text)
  have tr: "Truncate ?buf (int (length ?buf) - 2) = Inr (?hd @ Join (table_lines m d) '',\<newline>'')"
    by (simp only: buf Truncate_two)
  have "generateSQL_body sb m d
        = (case Truncate ?buf (int (length ?buf) - 2) of
             Inl e \<Rightarrow> Inl e
           | Inr sb' \<Rightarrow> Inr ((sb' @ ''\<newline>);\<newline>\<newline>'') @ join_tables (ModelName m) (Fields m)))"
    unfolding generateSQL_body_def Let_def cols fks joins ..
  also have "\<dots> = Inr (sb @ model_sql m d)"
    by (simp only: tr) (simp add: model_sql_def create_table_def)
  finally show ?thesis .
qed

lemma generateSQL_loop_eq:
  "generateSQL_loop sb ms d = Inr (sb @ concat (map (\<lambda>m. model_sql m d) ms))"
  by (induction ms arbitrary: sb) (simp_all add: generateSQL_body_eq)

lemma generateSQL_eq: "generateSQL ms d = Inr (concat (map (\<lambda>m. model_sql m d) ms))"
  by (simp add: generateSQL_def generateSQL_loop_eq)

lemma sqlType_dialect: "sqlType t d1 = sqlType t d2"
  by (simp add: sqlType_def)

lemma column_dialect: "column f d1 = column f d2"
  by (simp add: column_def sqlType_dialect [of _ d1 d2])

lemma model_sql_dialect: "model_sql m d1 = model_sql m d2"
  by (simp add: model_sql_def create_table_def table_lines_def column_dialect [of _ d1 d2])





section \<open>The script and the command\<close>


lemma skipped_iff_guard: "field_of_stmt s = Inr None \<longleftrightarrow> \<not> is_assign_call s"
  by (induction s rule: is_assign_call.induct)
    (simp_all add: Let_def split: list.splits expr.splits)


lemma extract_loop_parse_error:
  assumes "(file, Some code) \<in> set files" and "suffix ''.py'' file" and "parse code = None"
  shows "\<exists>e. extract_loop parse result queries files = Inl e"
  using assms
proof (induction files arbitrary: result queries)
  case Nil
  then show ?case by simp
next
  case (Cons x files)
  obtain file' content where x: "x = (file', content)" by (cases x)
  show ?case
  proof (cases "x = (file, Some code)")
    case True
    with Cons.prems x show ?thesis by auto
  next
    case False
    with Cons.prems have "(file, Some code) \<in> set files" by simp
    from Cons.IH [OF this Cons.prems(2,3)]
    have IH: "\<exists>e. extract_loop parse r q files = Inl e" for r q .
    show ?thesis
    proof (cases "suffix ''.py'' file'")
      case False
      with x IH show ?thesis by simp
    next
      case True
      with x IH show ?thesis by (simp split: option.splits sum.splits)
    qed
  qed
qed

lemma up_not_down: "a @ ''_create_tables.up.sql'' \<noteq> b @ ''_create_tables.down.sql''"
proof
  assume "a @ ''_create_tables.up.sql'' = b @ ''_create_tables.down.sql''"
  then have "rev (a @ ''_create_tables.up.sql'') ! 4 = rev (b @ ''_create_tables.down.sql'') ! 4"
    by simp
  then show False by (simp add: nth_append)
qed

lemma main_success:
  assumes "flag_input fl \<noteq> []"
    and "runPythonParser parse tree (flag_input fl) = Inr out"
    and "\<not> flag_dryRun fl"
  shows "main parse tree clock fl =
    \<lparr>exit_status = 0,
     written =
       [([flag_output fl, ''schema.sql''],
         concat (map (\<lambda>m. model_sql m (flag_dialect fl)) (Models out))),
        ([flag_output fl, ''migrations'', Format (clock 0) @ ''_create_tables.up.sql''],
         concat (map (\<lambda>m. model_sql m (flag_dialect fl)) (Models out))),
        ([flag_output fl, ''migrations'', Format (clock 1) @ ''_create_tables.down.sql''],
         generateDownSQL (Models out) (flag_dialect fl)),
        ([flag_output fl, ''query.sql''], Join (Queries out) ''\<newline>\<newline>''),
        ([flag_output fl, ''sqlc.yaml''], generateSQLCConfig (flag_dialect fl))]\<rparr>"
  using assms
  by (simp add: main_def generateSQL_eq timestamp_def writeFile_def)


lemma Format_boundary:
  "Format (boundary_clock 0) = ''20250410131459'' \<and> Format (boundary_clock 1) = ''20250410131500''"
  by code_simp

lemma run_good: "runPythonParser example_parse good_app ''myapp'' =
  Inr \<lparr>Models = [\<lparr>ModelName = ''Author'', Fields = [\<lparr>Name = ''name'', Type = ''CharField'',
     Nullable = False, Unique = False, Relation = [], RelatedTo = []\<rparr>]\<rparr>], Queries = []\<rparr>"
  by code_simp

text \<open>
  The relation names that the script derives from the three relation constructors
  (line 240). \<open>generateSQL\<close> and \<open>generateDownSQL\<close> test for \<open>foreignkey\<close>,
  \<open>one2one\<close> and \<open>many2many\<close>.
\<close>

lemma script_relation_names:
  "ReplaceAll (ToLower ''ForeignKey'') ''field'' [] = ''foreignkey'' \<and>
   ReplaceAll (ToLower ''OneToOneField'') ''field'' [] = ''onetoone'' \<and>
   ReplaceAll (ToLower ''ManyToManyField'') ''field'' [] = ''manytomany''"
  by code_simp

section \<open>The claims\<close>

text \<open>
  C1. For the model \<open>Book\<close> with the fields \<open>title\<close>, \<open>author\<close> (a foreign key to
  \<open>Author\<close>) and \<open>tags\<close> (many-to-many to \<open>Tag\<close>), the claim and the README expect
  a table \<open>book\<close> with exactly the columns \<open>id\<close>, \<open>title\<close> and \<open>author_id\<close>. The
  generator writes one column for every field, named after the field and typed by
  \<open>sqlType\<close>: the table has the columns \<open>author TEXT NOT NULL\<close> and
  \<open>tags TEXT NOT NULL\<close>, and no column \<open>author_id\<close> for the foreign key to refer to.
\<close>

theorem Book_schema:
  "generateSQL [Book] ''postgres'' =
     Inr (''CREATE TABLE book (\<newline>''
       @ ''    id SERIAL PRIMARY KEY,\<newline>''
       @ ''    title TEXT NOT NULL,\<newline>''
       @ ''    author TEXT NOT NULL,\<newline>''
       @ ''    tags TEXT NOT NULL,\<newline>''
       @ ''    FOREIGN KEY (author_id) REFERENCES author(id)\<newline>''
       @ '');\<newline>\<newline>''
       @ ''CREATE TABLE book_tags (\<newline>''
       @ ''    book_id INTEGER REFERENCES book(id),\<newline>''
       @ ''    tag_id INTEGER REFERENCES tag(id)\<newline>''
       @ '');\<newline>\<newline>'')"
  by code_simp

text \<open>
  C2 (as amended). When the text of any scanned \<open>.py\<close> file cannot be parsed, the
  exception ends the script: extraction returns no model of any file,
  \<open>runPythonParser\<close> returns an error, and the command exits with status 1 without
  writing any file.
\<close>

theorem parse_error_aborts_run:
  assumes "(file, Some code) \<in> set (tree (flag_input fl))"
    and "suffix ''.py'' file" and "parse code = None"
  shows "(\<exists>e. extract_models parse (tree (flag_input fl)) = Inl e) \<and>
         (\<exists>e. runPythonParser parse tree (flag_input fl) = Inl e) \<and>
         main parse tree clock fl = \<lparr>exit_status = 1, written = []\<rparr>"
proof -
  from extract_loop_parse_error
    [where parse = parse and code = code and result = "[]" and queries = "[]", OF assms]
  obtain e where "extract_loop parse [] [] (tree (flag_input fl)) = Inl e" by blast
  then have ex: "extract_models parse (tree (flag_input fl)) = Inl e"
    by (simp add: extract_models_def)
  then have run: "runPythonParser parse tree (flag_input fl) = Inl (ExitError e)"
    by (simp add: runPythonParser_def)
  then have "main parse tree clock fl = \<lparr>exit_status = 1, written = []\<rparr>"
    by (simp add: main_def)
  with ex run show ?thesis by simp
qed

theorem parse_error_aborts_run_witness:
  "(''views.py'', Some broken_py) \<in> set (broken_app (flag_input example_flags)) \<and>
   suffix ''.py'' ''views.py'' \<and> example_parse broken_py = None \<and>
   (\<exists>e. extract_models example_parse (broken_app (flag_input example_flags)) = Inl e) \<and>
   (\<exists>e. runPythonParser example_parse broken_app (flag_input example_flags) = Inl e) \<and>
   main example_parse broken_app boundary_clock example_flags
     = \<lparr>exit_status = 1, written = []\<rparr>"
proof -
  have h1: "(''views.py'', Some broken_py) \<in> set (broken_app (flag_input example_flags))"
    by (simp add: broken_app_def)
  have h2: "suffix ''.py'' ''views.py''"
    by (simp add: suffix_def)
  have h3: "example_parse broken_py = None"
    by code_simp
  from parse_error_aborts_run [where parse = example_parse and clock = boundary_clock
      and tree = broken_app and fl = example_flags and ?file = "''views.py''"
      and code = broken_py, OF h1 h2 h3] h1 h2 h3
  show ?thesis by simp
qed

text \<open>
  The claim as stated fails: \<open>models.py\<close> alone yields the model \<open>Author\<close>, but
  together with the unparsable \<open>views.py\<close> nothing is extracted and nothing is written.
\<close>

theorem parse_error_counterexample:
  "extract_models example_parse (good_app ''myapp'')
     = Inr \<lparr>py_models = [\<lparr>py_model_name = ''Author'', py_fields = [\<lparr>py_name = ''name'',
          py_type = ''CharField'', py_nullable = PyBool False, py_unique = PyBool False,
          py_relation = None, py_related_to = None\<rparr>]\<rparr>], py_queries = []\<rparr> \<and>
   extract_models example_parse (broken_app ''myapp'') = Inl SyntaxError \<and>
   main example_parse broken_app boundary_clock example_flags = \<lparr>exit_status = 1, written = []\<rparr>"
  by code_simp




text \<open>
  C4. The two migration files of one run are meant to carry the same timestamp. The
  command reads the clock once for each file name: when the second changes between the
  two readings, the names of the up and the down file differ.
\<close>

theorem timestamps_differ:
  "map fst (written (main example_parse good_app boundary_clock example_flags))
   = [[''out'', ''schema.sql''],
      [''out'', ''migrations'', ''20250410131459_create_tables.up.sql''],
      [''out'', ''migrations'', ''20250410131500_create_tables.down.sql''],
      [''out'', ''query.sql''],
      [''out'', ''sqlc.yaml'']]"
  by code_simp




text \<open>
  C7. In a run that reaches the generation (an input path is given, the parser
  succeeds, no dry run), the file written as the up migration holds exactly the output
  of \<open>generateSQL\<close> for the extracted models and the chosen dialect.
\<close>

theorem up_migration_is_schema:
  assumes "flag_input fl \<noteq> []"
    and "runPythonParser parse tree (flag_input fl) = Inr out"
    and "\<not> flag_dryRun fl"
  shows "\<exists>sql. generateSQL (Models out) (flag_dialect fl) = Inr sql \<and>
    artifact (main parse tree clock fl)
      [flag_output fl, ''migrations'', Format (clock 0) @ ''_create_tables.up.sql''] = Some sql"
  by (simp add: main_success [OF assms] generateSQL_eq artifact_def up_not_down)

theorem up_migration_is_schema_witness:
  "flag_input example_flags \<noteq> [] \<and> \<not> flag_dryRun example_flags \<and>
   (\<exists>out sql. runPythonParser example_parse good_app (flag_input example_flags) = Inr out \<and>
      generateSQL (Models out) (flag_dialect example_flags) = Inr sql \<and>
      artifact (main example_parse good_app boundary_clock example_flags)
        [''out'', ''migrations'', ''20250410131459_create_tables.up.sql''] = Some sql)"
proof -
  have h1: "flag_input example_flags \<noteq> []"
    by (simp add: example_flags_def)
  have h3: "\<not> flag_dryRun example_flags"
    by (simp add: example_flags_def)
  have h2: "runPythonParser example_parse good_app (flag_input example_flags)
    = Inr \<lparr>Models = [\<lparr>ModelName = ''Author'', Fields = [\<lparr>Name = ''name'',
        Type = ''CharField'', Nullable = False, Unique = False, Relation = [],
        RelatedTo = []\<rparr>]\<rparr>], Queries = []\<rparr>"
    using run_good by (simp add: example_flags_def)
  from up_migration_is_schema [OF h1 h2 h3, of boundary_clock] h1 h2 h3
  show ?thesis
    by (simp add: Format_boundary) (simp add: example_flags_def)
qed

text \<open>
  C8. The dialect has no influence on the generated schema: for every list of models,
  \<open>generateSQL\<close> returns the same text for any two dialects, and \<open>sqlType\<close> maps
  every field type to the same SQL type for any two dialects.
\<close>

theorem dialect_invariant:
  "generateSQL models d1 = generateSQL models d2 \<and> sqlType ftype d1 = sqlType ftype d2"
  by (simp add: generateSQL_eq model_sql_dialect [of _ d1 d2] sqlType_dialect [of _ d1 d2])




end
